theory Spec2Isabelle
  imports Main
begin

section \<open>JavaScript values used by the configuration loader\<close>

text \<open>
  An optional string (\<open>string | undefined\<close>, \<open>string | null\<close>) is a \<open>string option\<close>.
  JavaScript's truthiness test on such a value (\<open>x ? .. : ..\<close>, \<open>!x\<close>, \<open>x && y\<close>)
  holds exactly when the value is a string of non-zero length.
\<close>

definition truthy :: "string option \<Rightarrow> bool" where
  "truthy v = (case v of None \<Rightarrow> False | Some s \<Rightarrow> s \<noteq> [])"

text \<open>\<open>a || b\<close>: the left operand when it is truthy, the right operand otherwise.\<close>

definition js_or :: "string option \<Rightarrow> string option \<Rightarrow> string option" where
  "js_or a b = (if truthy a then a else b)"

section \<open>The \<open>path\<close> module of Node.js (POSIX flavour)\<close>

text \<open>
  \<open>config-loader.ts\<close> imports \<open>join\<close> and \<open>resolve\<close> from Node's \<open>path\<close> module.
  They are library functions; the definitions below follow the POSIX implementation of
  Node (\<open>lib/path.js\<close>): a path is cut at every \<open>/\<close>, empty segments and \<open>.\<close>
  are dropped, \<open>..\<close> removes the segment before it (or is kept when the path is
  relative and nothing is left to remove).
\<close>

fun split_on :: "char \<Rightarrow> string \<Rightarrow> string list" where
  "split_on c [] = [[]]"
| "split_on c (x # xs) =
     (if x = c then [] # split_on c xs
      else (case split_on c xs of
              [] \<Rightarrow> [[x]]
            | s # ss \<Rightarrow> (x # s) # ss))"

fun join_with :: "string \<Rightarrow> string list \<Rightarrow> string" where
  "join_with sep [] = []"
| "join_with sep [s] = s"
| "join_with sep (s # t # ss) = s @ sep @ join_with sep (t # ss)"

definition normalizeStep :: "bool \<Rightarrow> string list \<Rightarrow> string \<Rightarrow> string list" where
  "normalizeStep allowAboveRoot res seg =
     (if seg = [] \<or> seg = ''.'' then res
      else if seg = ''..'' then
        (if res \<noteq> [] \<and> last res \<noteq> ''..'' then butlast res
         else if allowAboveRoot then res @ [''..'']
         else res)
      else res @ [seg])"

definition normalizeString :: "string \<Rightarrow> bool \<Rightarrow> string" where
  "normalizeString path allowAboveRoot =
     join_with ''/'' (foldl (normalizeStep allowAboveRoot) [] (split_on CHR ''/'' path))"

definition path_normalize :: "string \<Rightarrow> string" where
  "path_normalize path =
     (if path = [] then ''.''
      else
        (let isAbsolute = (hd path = CHR ''/'');
             trailingSeparator = (last path = CHR ''/'');
             p = normalizeString path (\<not> isAbsolute)
         in if p = [] then
              (if isAbsolute then ''/'' else if trailingSeparator then ''./'' else ''.'')
            else (if isAbsolute then ''/'' else []) @ p
                 @ (if trailingSeparator then ''/'' else [])))"

definition path_join :: "string \<Rightarrow> string \<Rightarrow> string" where
  "path_join a b =
     (case filter (\<lambda>arg. arg \<noteq> []) [a, b] of
        [] \<Rightarrow> ''.''
      | args \<Rightarrow> path_normalize (join_with ''/'' args))"

text \<open>
  \<open>resolve\<close> walks its arguments from the right, then the process's working directory,
  and stops at the first absolute one.
\<close>

fun resolveLoop :: "string list \<Rightarrow> string \<Rightarrow> string \<times> bool" where
  "resolveLoop [] resolvedPath = (resolvedPath, False)"
| "resolveLoop (path # paths) resolvedPath =
     (if path = [] then resolveLoop paths resolvedPath
      else if hd path = CHR ''/'' then (path @ ''/'' @ resolvedPath, True)
      else resolveLoop paths (path @ ''/'' @ resolvedPath))"

definition path_resolve :: "string \<Rightarrow> string \<Rightarrow> string \<Rightarrow> string" where
  "path_resolve processCwd a b =
     (case resolveLoop [b, a, processCwd] [] of
        (resolvedPath, resolvedAbsolute) \<Rightarrow>
          (let p = normalizeString resolvedPath (\<not> resolvedAbsolute)
           in if resolvedAbsolute then ''/'' @ p
              else if p \<noteq> [] then p else ''.''))"

section \<open>\<open>src/core/config-loader.ts\<close>\<close>

subsection \<open>Finding and loading the configuration file\<close>

text \<open>
  The file system is read through \<open>existsSync\<close> only: it is the list of the paths
  that exist. \<open>processCwd\<close> is what \<open>process.cwd()\<close> returns.
\<close>

record environment =
  processCwd :: string
  files :: "string list"

definition existsSync :: "environment \<Rightarrow> string \<Rightarrow> bool" where
  "existsSync env p = (p \<in> set (files env))"

definition candidates :: "string list" where
  "candidates =
     [''simplemcp.config.js'',
      ''simplemcp.config.mjs'',
      ''simplemcp.config.json'',
      ''simplymcp.config.js'',
      ''simplymcp.config.mjs'',
      ''simplymcp.config.json'',
      ''.simplemcprc.json'',
      ''.simplemcprc.js'']"

text \<open>The \<open>for (const candidate of candidates)\<close> loop of \<open>findConfigFile\<close>.\<close>

fun findConfigLoop :: "environment \<Rightarrow> string \<Rightarrow> string list \<Rightarrow> string option" where
  "findConfigLoop env cwd [] = None"
| "findConfigLoop env cwd (candidate # rest) =
     (let candidatePath = path_join cwd candidate
      in if existsSync env candidatePath then Some candidatePath
         else findConfigLoop env cwd rest)"

definition findConfigFile :: "environment \<Rightarrow> string \<Rightarrow> string option" where
  "findConfigFile env cwd = findConfigLoop env cwd candidates"

text \<open>
  \<open>loadConfig(configPath?, cwd = process.cwd())\<close>: an omitted \<open>cwd\<close> takes the default
  (\<open>cwdOrDefault\<close>). A thrown \<open>Error\<close> is \<open>Inl\<close> of its
  message, the value \<open>null\<close> is \<open>Inr None\<close>. \<open>parseConfig\<close> reads and evaluates the
  file (JSON text or a JavaScript module); it is a parameter here, returning the
  message of the error it throws or the configuration.
\<close>

definition cwdOrDefault :: "environment \<Rightarrow> string option \<Rightarrow> string" where
  "cwdOrDefault env cwdArg = (case cwdArg of None \<Rightarrow> processCwd env | Some d \<Rightarrow> d)"

definition loadConfig ::
  "environment \<Rightarrow> (string \<Rightarrow> string + 'c) \<Rightarrow> string option \<Rightarrow> string option
     \<Rightarrow> string + 'c option" where
  "loadConfig env parseConfig configPath cwdArg =
     (let cwd = cwdOrDefault env cwdArg;
          configFile =
            (if truthy configPath
             then Some (path_resolve (processCwd env) cwd (the configPath))
             else findConfigFile env cwd)
      in if \<not> truthy configFile then Inr None
         else if \<not> existsSync env (the configFile)
           then Inl (''Config file not found: '' @ the configFile)
         else (case parseConfig (the configFile) of
                 Inl err \<Rightarrow> Inl err
               | Inr config \<Rightarrow> Inr (Some config)))"

subsection \<open>Merging command-line options over the configuration file\<close>

text \<open>
  \<open>bundle-types.ts\<close> declares \<open>SimplyMCPConfig\<close> and \<open>BundleOptions\<close>. The fields
  are the ones \<open>mergeConfig\<close>, \<open>validateConfig\<close> and \<open>createDefaultConfig\<close> read
  and write; every one is optional (\<open>None\<close> is \<open>undefined\<close>); the fields of
  \<open>BundleOptions\<close> carry the prefix \<open>opt_\<close>, those of the configuration file
  \<open>cfg_\<close>, \<open>out_\<close> (its \<open>output\<close> object) and \<open>bnd_\<close> (its \<open>bundle\<close> object). The formats and
  platforms are the lists \<open>validFormats\<close> and \<open>validPlatforms\<close>. The types of
  \<open>sourcemap\<close> and of the two callbacks do not matter to the merge: they are type
  parameters.
\<close>

datatype bundle_format = SingleFile | Standalone | Executable | Esm | Cjs

datatype bundle_platform = Node | Neutral

record output_config =
  out_dir :: "string option"
  out_filename :: "string option"
  out_format :: "bundle_format option"

record 'sm bundle_config =
  bnd_minify :: "bool option"
  bnd_platform :: "bundle_platform option"
  bnd_target :: "string option"
  bnd_external :: "string list option"
  bnd_sourcemap :: "'sm option"
  bnd_treeShake :: "bool option"

record 'sm SimplyMCPConfig =
  cfg_entry :: "string option"
  cfg_output :: "output_config option"
  cfg_bundle :: "'sm bundle_config option"
  cfg_autoInstall :: "bool option"

record ('sm, 'p, 'e) BundleOptions =
  opt_entry :: "string option"
  opt_output :: "string option"
  opt_format :: "bundle_format option"
  opt_minify :: "bool option"
  opt_platform :: "bundle_platform option"
  opt_target :: "string option"
  opt_external :: "string list option"
  opt_sourcemap :: "'sm option"
  opt_autoInstall :: "bool option"
  opt_onProgress :: "'p option"
  opt_onError :: "'e option"
  opt_watch :: "bool option"
  opt_treeShake :: "bool option"
  opt_basePath :: "string option"

text \<open>
  Optional chaining: \<open>config?.entry\<close> is \<open>chain config cfg_entry\<close>,
  \<open>config?.output?.dir\<close> is \<open>chain (chain config cfg_output) out_dir\<close>.
\<close>

definition chain :: "'a option \<Rightarrow> ('a \<Rightarrow> 'b option) \<Rightarrow> 'b option" where
  "chain v field = (case v of None \<Rightarrow> None | Some x \<Rightarrow> field x)"

text \<open>
  The step \<open>if (cli !== undefined) merged.f = cli; else if (cfg !== undefined) merged.f = cfg\<close>
  that \<open>mergeConfig\<close> repeats for every field but \<open>output\<close>; a field that is
  not assigned stays \<open>undefined\<close>.
\<close>

definition cliOver :: "'a option \<Rightarrow> 'a option \<Rightarrow> 'a option" where
  "cliOver cli cfg = (if cli \<noteq> None then cli else if cfg \<noteq> None then cfg else None)"

definition mergedOutput :: "'sm SimplyMCPConfig option \<Rightarrow> string option \<Rightarrow> string option" where
  "mergedOutput config cliOutput =
     (let dir = chain (chain config cfg_output) out_dir;
          filename = chain (chain config cfg_output) out_filename
      in if cliOutput \<noteq> None then cliOutput
         else if dir \<noteq> None \<or> filename \<noteq> None then
           (if truthy dir \<and> truthy filename then Some (path_join (the dir) (the filename))
            else js_or dir filename)
         else None)"

definition mergeConfig ::
  "'sm SimplyMCPConfig option \<Rightarrow> ('sm, 'p, 'e) BundleOptions \<Rightarrow> ('sm, 'p, 'e) BundleOptions" where
  "mergeConfig config cliOptions =
     \<lparr> opt_entry = cliOver (opt_entry cliOptions) (chain config cfg_entry),
       opt_output = mergedOutput config (opt_output cliOptions),
       opt_format = cliOver (opt_format cliOptions) (chain (chain config cfg_output) out_format),
       opt_minify = cliOver (opt_minify cliOptions) (chain (chain config cfg_bundle) bnd_minify),
       opt_platform = cliOver (opt_platform cliOptions) (chain (chain config cfg_bundle) bnd_platform),
       opt_target = cliOver (opt_target cliOptions) (chain (chain config cfg_bundle) bnd_target),
       opt_external = cliOver (opt_external cliOptions) (chain (chain config cfg_bundle) bnd_external),
       opt_sourcemap = cliOver (opt_sourcemap cliOptions) (chain (chain config cfg_bundle) bnd_sourcemap),
       opt_autoInstall = cliOver (opt_autoInstall cliOptions) (chain config cfg_autoInstall),
       opt_onProgress = opt_onProgress cliOptions,
       opt_onError = opt_onError cliOptions,
       opt_watch = opt_watch cliOptions,
       opt_treeShake = opt_treeShake cliOptions,
       opt_basePath = opt_basePath cliOptions \<rparr>"

subsection \<open>Concrete inputs\<close>

text \<open>A project directory holding two of the conventional files, and an empty one.\<close>

definition projectEnv :: environment where
  "projectEnv =
     \<lparr> processCwd = ''/home/dev'',
       files = [''/srv/app'', ''/srv/app/simplymcp.config.json'', ''/srv/app/.simplemcprc.js'',
                ''/srv/empty''] \<rparr>"

text \<open>A machine on which the working directory handed to \<open>loadConfig\<close> does not exist.\<close>

definition missingDirEnv :: environment where
  "missingDirEnv = \<lparr> processCwd = ''/'', files = [] \<rparr>"

definition neverParsed :: "string \<Rightarrow> string + unit" where
  "neverParsed f = Inl ''not parsed''"

text \<open>
  A configuration file \<open>{ entry: 'src/server.ts', output: { dir: 'dist', filename:
  'bundle.js', format: 'esm' }, autoInstall: false }\<close> and the options
  \<open>{ entry: 'cli.ts', minify: true }\<close>.
\<close>

definition exampleConfig :: "unit SimplyMCPConfig" where
  "exampleConfig =
     \<lparr> cfg_entry = Some ''src/server.ts'',
       cfg_output = Some \<lparr> out_dir = Some ''dist'', out_filename = Some ''bundle.js'',
                            out_format = Some Esm \<rparr>,
       cfg_bundle = None,
       cfg_autoInstall = Some False \<rparr>"

definition exampleCli :: "(unit, unit, unit) BundleOptions" where
  "exampleCli =
     \<lparr> opt_entry = Some ''cli.ts'', opt_output = None, opt_format = None,
       opt_minify = Some True, opt_platform = None, opt_target = None, opt_external = None,
       opt_sourcemap = None, opt_autoInstall = None, opt_onProgress = None, opt_onError = None,
       opt_watch = None, opt_treeShake = None, opt_basePath = None \<rparr>"

text \<open>
  A configuration file \<open>{ output: { dir: '', filename: '' } }\<close> (it passes
  \<open>validateConfig\<close>, which asks only that both are strings) and no options.
\<close>

definition emptyNamesConfig :: "unit SimplyMCPConfig" where
  "emptyNamesConfig =
     \<lparr> cfg_entry = None,
       cfg_output = Some \<lparr> out_dir = Some [], out_filename = Some [], out_format = None \<rparr>,
       cfg_bundle = None,
       cfg_autoInstall = None \<rparr>"

definition noCliOptions :: "(unit, unit, unit) BundleOptions" where
  "noCliOptions =
     \<lparr> opt_entry = None, opt_output = None, opt_format = None, opt_minify = None,
       opt_platform = None, opt_target = None, opt_external = None, opt_sourcemap = None,
       opt_autoInstall = None, opt_onProgress = None, opt_onError = None, opt_watch = None,
       opt_treeShake = None, opt_basePath = None \<rparr>"

section \<open>The Execution Engine's retry policy\<close>

text \<open>
  \<open>mcp/core/types.ts\<close> declares the types of the Handler Execution Framework
  (\<open>ToolHandler\<close>, \<open>HandlerExecutionOptions\<close> with its \<open>retries\<close>); the engine that
  runs a resolved handler is not among the source files. The definitions of this
  section are written from the specification (sections 4.6 and 7).
\<close>

text \<open>
  Modelled from the spec: the error taxonomy of section 7 (no error type is declared in
  the source files). \<open>NetworkFailure\<close> is the "network failure" that section 7 names
  beside the timeout as transient; \<open>HandlerFailure code message\<close> is a semantic or
  validation failure raised by the handler itself.
\<close>

datatype failure =
    PermissionDenied
  | Timeout
  | Aborted
  | ModuleLoadError
  | ExportNotFound
  | TransformError
  | HandlerNotRegistered
  | UnsupportedHandlerType
  | NetworkFailure
  | HandlerFailure string string

text \<open>
  Modelled from the spec: the engine's classification of failures, which is not in the
  source files. "Execution failures classified as transient (timeout, network
  failure)"; every other failure is terminal.
\<close>

fun transient :: "failure \<Rightarrow> bool" where
  "transient Timeout = True"
| "transient NetworkFailure = True"
| "transient _ = False"

text \<open>
  One attempt is one invocation of the resolved \<open>ToolHandler\<close> (arguments and context
  fixed) under the engine's timer: it takes the state of the outside world \<open>'s\<close> and
  returns a result or a failure, and the new state. An attempt cut by the timer has the
  outcome \<open>Inl Timeout\<close>; the clock itself and the abort signal are not modelled.
\<close>

type_synonym ('s, 'r) invocation = "'s \<Rightarrow> (failure + 'r) \<times> 's"

text \<open>
  Modelled from the spec: the test the engine's retry loop applies to the outcome of an
  attempt (the loop is not in the source files). The loop is "applied only to
  idempotent-safe failure classes (network/timeout failures) - a successful call or a
  semantic/validation failure from the handler itself is never retried".
\<close>

definition retryable :: "failure + 'r \<Rightarrow> bool" where
  "retryable a = (case a of Inl f \<Rightarrow> transient f | Inr r \<Rightarrow> False)"

text \<open>
  Modelled from the spec: the engine's retry loop, which is not in the source files: "a
  retry loop bounded by a configured attempt count", "retry up to \<open>retries\<close> times".
  The first argument is the number of retries left; the result lists the outcome of
  every attempt made, in order.
\<close>

fun retryLoop :: "nat \<Rightarrow> ('s, 'r) invocation \<Rightarrow> 's \<Rightarrow> (failure + 'r) list \<times> 's" where
  "retryLoop 0 h s = (case h s of (a, s') \<Rightarrow> ([a], s'))"
| "retryLoop (Suc n) h s =
     (case h s of (a, s') \<Rightarrow>
        if retryable a
        then (case retryLoop n h s' of (as, s'') \<Rightarrow> (a # as, s''))
        else ([a], s'))"

record ('s, 'r) execution =
  outcome :: "failure + 'r"
  attempts :: "(failure + 'r) list"
  world :: 's

text \<open>
  Modelled from the spec: the engine's entry point, which is not in the source files.
  It is given what Dispatch returned: a resolution failure is "terminal for that
  invocation and surfaced immediately"; a resolved handler goes through the retry loop
  and the outcome of the last attempt is surfaced.
\<close>

definition execute ::
  "nat \<Rightarrow> failure + ('s, 'r) invocation \<Rightarrow> 's \<Rightarrow> ('s, 'r) execution" where
  "execute retries resolved s =
     (case resolved of
        Inl f \<Rightarrow> \<lparr> outcome = Inl f, attempts = [], world = s \<rparr>
      | Inr h \<Rightarrow>
          (case retryLoop retries h s of
             (as, s') \<Rightarrow> \<lparr> outcome = last as, attempts = as, world = s' \<rparr>))"

text \<open>
  A handler that times out on its first two invocations and succeeds from the third
  on; the state counts the invocations.
\<close>

definition flakyHandler :: "(nat, string) invocation" where
  "flakyHandler calls = (if calls < 2 then Inl Timeout else Inr ''ok'', Suc calls)"

section \<open>Properties of the \<open>path\<close> functions\<close>

lemma path_join_nonempty: "path_join a b \<noteq> []"
  by (auto simp add: path_join_def path_normalize_def Let_def split: list.splits)

lemma path_resolve_nonempty: "path_resolve pc a b \<noteq> []"
  by (simp add: path_resolve_def Let_def split: prod.splits)

lemma path_join_empty_empty: "path_join [] [] = ''.''"
  by (simp add: path_join_def)

lemma path_join_dist_bundle: "path_join ''dist'' ''bundle.js'' = ''dist/bundle.js''"
  by code_simp

lemma path_resolve_missing:
  "path_resolve ''/home/dev'' ''/srv/app'' ''missing.json'' = ''/srv/app/missing.json''"
  by code_simp

section \<open>Properties of the configuration loader\<close>

subsection \<open>The search for a conventional file\<close>

lemma findConfigLoop_none:
  "(\<forall>c \<in> set cs. \<not> existsSync env (path_join cwd c)) \<Longrightarrow> findConfigLoop env cwd cs = None"
  by (induction cs) (simp_all add: Let_def)

lemma findConfigLoop_find:
  "findConfigLoop env cwd cs =
     map_option (path_join cwd) (find (\<lambda>c. existsSync env (path_join cwd c)) cs)"
  by (induction cs) (simp_all add: Let_def)

lemma findConfigLoop_first:
  "i < length cs \<Longrightarrow> existsSync env (path_join cwd (cs ! i)) \<Longrightarrow>
   (\<forall>c \<in> set (take i cs). \<not> existsSync env (path_join cwd c)) \<Longrightarrow>
   findConfigLoop env cwd cs = Some (path_join cwd (cs ! i))"
proof (induction cs arbitrary: i)
  case Nil
  then show ?case by simp
next
  case (Cons c cs)
  show ?case
  proof (cases i)
    case 0
    with Cons.prems show ?thesis by (simp add: Let_def)
  next
    case (Suc k)
    from Cons.prems(3) Suc have c: "\<not> existsSync env (path_join cwd c)"
      and rest: "\<forall>c \<in> set (take k cs). \<not> existsSync env (path_join cwd c)"
      by simp_all
    from Cons.prems(1,2) Suc have "k < length cs" "existsSync env (path_join cwd (cs ! k))"
      by simp_all
    from Cons.IH [OF this rest] c Suc show ?thesis by (simp add: Let_def)
  qed
qed

subsection \<open>\<open>loadConfig\<close>\<close>

text \<open>
  C10. \<open>loadConfig\<close> called with a configPath that is a non-empty string and resolves
  (against the working directory) to a path that does not exist throws "Config file
  not found"; it does not return null. Called with no configPath, when none of the
  eight conventional names exists in the working directory, it returns null and does
  not throw. The eight names are probed in the order of the list, which starts with
  \<open>simplemcp.config.js\<close>: the search returns the first of them that exists.
\<close>

theorem loadConfig_missing_versus_none:
  "(p \<noteq> [] \<and> \<not> existsSync env (path_resolve (processCwd env) (cwdOrDefault env cwdArg) p) \<longrightarrow>
      loadConfig env parseConfig (Some p) cwdArg =
        Inl (''Config file not found: ''
             @ path_resolve (processCwd env) (cwdOrDefault env cwdArg) p))
   \<and> ((\<forall>c \<in> set candidates. \<not> existsSync env (path_join (cwdOrDefault env cwdArg) c)) \<longrightarrow>
      loadConfig env parseConfig None cwdArg = Inr None)
   \<and> candidates =
       [''simplemcp.config.js'', ''simplemcp.config.mjs'', ''simplemcp.config.json'',
        ''simplymcp.config.js'', ''simplymcp.config.mjs'', ''simplymcp.config.json'',
        ''.simplemcprc.json'', ''.simplemcprc.js'']
   \<and> (i < length candidates \<and> existsSync env (path_join cwd (candidates ! i))
        \<and> (\<forall>c \<in> set (take i candidates). \<not> existsSync env (path_join cwd c)) \<longrightarrow>
      findConfigFile env cwd = Some (path_join cwd (candidates ! i)))"
proof (intro conjI impI)
  assume "p \<noteq> [] \<and> \<not> existsSync env (path_resolve (processCwd env) (cwdOrDefault env cwdArg) p)"
  then show "loadConfig env parseConfig (Some p) cwdArg =
        Inl (''Config file not found: ''
             @ path_resolve (processCwd env) (cwdOrDefault env cwdArg) p)"
    by (simp add: loadConfig_def Let_def truthy_def path_resolve_nonempty)
next
  assume "\<forall>c \<in> set candidates. \<not> existsSync env (path_join (cwdOrDefault env cwdArg) c)"
  then have "findConfigFile env (cwdOrDefault env cwdArg) = None"
    unfolding findConfigFile_def by (rule findConfigLoop_none)
  then show "loadConfig env parseConfig None cwdArg = Inr None"
    by (simp add: loadConfig_def Let_def truthy_def)
next
  show "candidates =
       [''simplemcp.config.js'', ''simplemcp.config.mjs'', ''simplemcp.config.json'',
        ''simplymcp.config.js'', ''simplymcp.config.mjs'', ''simplymcp.config.json'',
        ''.simplemcprc.json'', ''.simplemcprc.js'']"
    by (simp add: candidates_def)
next
  assume "i < length candidates \<and> existsSync env (path_join cwd (candidates ! i))
        \<and> (\<forall>c \<in> set (take i candidates). \<not> existsSync env (path_join cwd c))"
  then show "findConfigFile env cwd = Some (path_join cwd (candidates ! i))"
    unfolding findConfigFile_def by (simp add: findConfigLoop_first)
qed

theorem loadConfig_missing_versus_none_witness:
  "loadConfig projectEnv neverParsed (Some ''missing.json'') (Some ''/srv/app'')
     = Inl ''Config file not found: /srv/app/missing.json''
   \<and> loadConfig projectEnv neverParsed None (Some ''/srv/empty'') = Inr None
   \<and> findConfigFile projectEnv ''/srv/app'' = Some ''/srv/app/simplymcp.config.json''"
proof -
  have h1: "''missing.json'' \<noteq> []
      \<and> \<not> existsSync projectEnv
            (path_resolve (processCwd projectEnv)
               (cwdOrDefault projectEnv (Some ''/srv/app'')) ''missing.json'')"
    by (simp add: projectEnv_def cwdOrDefault_def existsSync_def path_resolve_missing)
  have h2: "\<forall>c \<in> set candidates.
      \<not> existsSync projectEnv (path_join (cwdOrDefault projectEnv (Some ''/srv/empty'')) c)"
    by code_simp
  have h3: "5 < length candidates
      \<and> existsSync projectEnv (path_join ''/srv/app'' (candidates ! 5))
      \<and> (\<forall>c \<in> set (take 5 candidates). \<not> existsSync projectEnv (path_join ''/srv/app'' c))"
    by code_simp
  have j: "path_join ''/srv/app'' (candidates ! 5) = ''/srv/app/simplymcp.config.json''"
    by code_simp
  from loadConfig_missing_versus_none
         [where p = "''missing.json''" and env = projectEnv and cwdArg = "Some ''/srv/app''"
            and parseConfig = neverParsed]
       h1
  have a: "loadConfig projectEnv neverParsed (Some ''missing.json'') (Some ''/srv/app'')
     = Inl ''Config file not found: /srv/app/missing.json''"
    by (simp add: projectEnv_def cwdOrDefault_def path_resolve_missing)
  from loadConfig_missing_versus_none
         [where env = projectEnv and cwdArg = "Some ''/srv/empty''"
            and parseConfig = neverParsed]
       h2
  have b: "loadConfig projectEnv neverParsed None (Some ''/srv/empty'') = Inr None"
    by blast
  from loadConfig_missing_versus_none
         [where env = projectEnv and i = 5 and cwd = "''/srv/app''"]
       h3
  have "findConfigFile projectEnv ''/srv/app'' = Some (path_join ''/srv/app'' (candidates ! 5))"
    by blast
  with a b j show ?thesis by simp
qed

text \<open>
  Without the restriction to a non-empty string the statement fails:
  \<open>configPath ? .. : ..\<close> takes the empty string for an omitted argument. With
  \<open>loadConfig('', '/nonexistent')\<close> the path \<open>resolve('/nonexistent', '')\<close> does not
  exist, the conventional names are searched instead, and the call returns null.
\<close>

theorem loadConfig_empty_configPath_counterexample:
  "\<not> existsSync missingDirEnv
        (path_resolve (processCwd missingDirEnv)
           (cwdOrDefault missingDirEnv (Some ''/nonexistent'')) [])
   \<and> loadConfig missingDirEnv neverParsed (Some []) (Some ''/nonexistent'') = Inr None"
  by (simp add: missingDirEnv_def existsSync_def loadConfig_def truthy_def findConfigFile_def
      candidates_def cwdOrDefault_def Let_def)

subsection \<open>\<open>mergeConfig\<close>\<close>

lemma cliOver_defined: "cli \<noteq> None \<Longrightarrow> cliOver cli cfg = cli"
  by (simp add: cliOver_def)

lemma cliOver_undefined: "cliOver None cfg = cfg"
  by (simp add: cliOver_def)

lemma mergedOutput_cli: "cliOutput \<noteq> None \<Longrightarrow> mergedOutput config cliOutput = cliOutput"
  by (simp add: mergedOutput_def Let_def)

lemma mergedOutput_join:
  assumes "chain (chain config cfg_output) out_dir = Some d"
    and "chain (chain config cfg_output) out_filename = Some f"
    and "d \<noteq> []" and "f \<noteq> []"
  shows "mergedOutput config None = Some (path_join d f)"
  using assms by (simp add: mergedOutput_def Let_def truthy_def)

text \<open>
  When the directory or the file name is missing or empty, nothing is joined: the
  output is the directory if it is a non-empty string, the file name otherwise.
\<close>

lemma mergedOutput_otherwise:
  "\<not> (truthy (chain (chain config cfg_output) out_dir)
       \<and> truthy (chain (chain config cfg_output) out_filename)) \<Longrightarrow>
   mergedOutput config None =
     js_or (chain (chain config cfg_output) out_dir) (chain (chain config cfg_output) out_filename)"
  by (auto simp add: mergedOutput_def Let_def js_or_def truthy_def split: option.splits)

text \<open>
  C9. \<open>mergeConfig\<close> gives the command-line options precedence field by field: for
  each of entry, output, format, minify, platform, target, external, sourcemap and
  autoInstall the merged value is the command-line value whenever that is defined;
  when it is undefined, the merged entry, format, minify, platform, target, external,
  sourcemap and autoInstall are the configuration file's values (\<open>config.entry\<close>,
  \<open>config.output.format\<close>, \<open>config.bundle.*\<close>, \<open>config.autoInstall\<close>; undefined when
  the file has none). When the command-line output is undefined and the configuration
  has both \<open>output.dir\<close> and \<open>output.filename\<close> as non-empty strings, the merged output
  is the path join of the two.
\<close>

theorem mergeConfig_cli_precedence:
  "(opt_entry cli \<noteq> None \<longrightarrow> opt_entry (mergeConfig config cli) = opt_entry cli)
   \<and> (opt_entry cli = None \<longrightarrow> opt_entry (mergeConfig config cli) = chain config cfg_entry)
   \<and> (opt_format cli \<noteq> None \<longrightarrow> opt_format (mergeConfig config cli) = opt_format cli)
   \<and> (opt_format cli = None \<longrightarrow>
        opt_format (mergeConfig config cli) = chain (chain config cfg_output) out_format)
   \<and> (opt_minify cli \<noteq> None \<longrightarrow> opt_minify (mergeConfig config cli) = opt_minify cli)
   \<and> (opt_minify cli = None \<longrightarrow>
        opt_minify (mergeConfig config cli) = chain (chain config cfg_bundle) bnd_minify)
   \<and> (opt_platform cli \<noteq> None \<longrightarrow> opt_platform (mergeConfig config cli) = opt_platform cli)
   \<and> (opt_platform cli = None \<longrightarrow>
        opt_platform (mergeConfig config cli) = chain (chain config cfg_bundle) bnd_platform)
   \<and> (opt_target cli \<noteq> None \<longrightarrow> opt_target (mergeConfig config cli) = opt_target cli)
   \<and> (opt_target cli = None \<longrightarrow>
        opt_target (mergeConfig config cli) = chain (chain config cfg_bundle) bnd_target)
   \<and> (opt_external cli \<noteq> None \<longrightarrow> opt_external (mergeConfig config cli) = opt_external cli)
   \<and> (opt_external cli = None \<longrightarrow>
        opt_external (mergeConfig config cli) = chain (chain config cfg_bundle) bnd_external)
   \<and> (opt_sourcemap cli \<noteq> None \<longrightarrow> opt_sourcemap (mergeConfig config cli) = opt_sourcemap cli)
   \<and> (opt_sourcemap cli = None \<longrightarrow>
        opt_sourcemap (mergeConfig config cli) = chain (chain config cfg_bundle) bnd_sourcemap)
   \<and> (opt_autoInstall cli \<noteq> None \<longrightarrow>
        opt_autoInstall (mergeConfig config cli) = opt_autoInstall cli)
   \<and> (opt_autoInstall cli = None \<longrightarrow>
        opt_autoInstall (mergeConfig config cli) = chain config cfg_autoInstall)
   \<and> (opt_output cli \<noteq> None \<longrightarrow> opt_output (mergeConfig config cli) = opt_output cli)
   \<and> (opt_output cli = None
        \<and> chain (chain config cfg_output) out_dir = Some d
        \<and> chain (chain config cfg_output) out_filename = Some f
        \<and> d \<noteq> [] \<and> f \<noteq> [] \<longrightarrow>
        opt_output (mergeConfig config cli) = Some (path_join d f))"
  by (simp add: mergeConfig_def cliOver_defined cliOver_undefined mergedOutput_cli
      mergedOutput_join)

theorem mergeConfig_cli_precedence_witness:
  "opt_entry (mergeConfig (Some exampleConfig) exampleCli) = Some ''cli.ts''
   \<and> opt_minify (mergeConfig (Some exampleConfig) exampleCli) = Some True
   \<and> opt_format (mergeConfig (Some exampleConfig) exampleCli) = Some Esm
   \<and> opt_autoInstall (mergeConfig (Some exampleConfig) exampleCli) = Some False
   \<and> opt_target (mergeConfig (Some exampleConfig) exampleCli) = None
   \<and> opt_output (mergeConfig (Some exampleConfig) exampleCli) = Some ''dist/bundle.js''"
  using mergeConfig_cli_precedence
          [where cli = exampleCli and config = "Some exampleConfig"
             and d = "''dist''" and f = "''bundle.js''"]
  by (simp add: exampleCli_def exampleConfig_def chain_def path_join_dist_bundle)

text \<open>
  Without the restriction to non-empty strings the statement fails. With
  \<open>{ output: { dir: '', filename: '' } }\<close> both fields are there,
  \<open>dir && filename\<close> is falsy, and the merged output is the empty string, where
  \<open>join('', '')\<close> is \<open>'.'\<close>.
\<close>

theorem mergeConfig_empty_dir_filename_counterexample:
  "opt_output noCliOptions = None
   \<and> chain (chain (Some emptyNamesConfig) cfg_output) out_dir = Some []
   \<and> chain (chain (Some emptyNamesConfig) cfg_output) out_filename = Some []
   \<and> opt_output (mergeConfig (Some emptyNamesConfig) noCliOptions) = Some []
   \<and> path_join [] [] = ''.''
   \<and> opt_output (mergeConfig (Some emptyNamesConfig) noCliOptions) \<noteq> Some (path_join [] [])"
  by (simp add: mergeConfig_def mergedOutput_def emptyNamesConfig_def noCliOptions_def chain_def
      truthy_def js_or_def path_join_empty_empty)

section \<open>Properties of the retry policy\<close>

lemma retryable_iff: "retryable a \<longleftrightarrow> (\<exists>e. a = Inl e \<and> transient e)"
  by (cases a) (simp_all add: retryable_def)

lemma retryLoop_nonempty: "fst (retryLoop n h s) \<noteq> []"
  by (induction n arbitrary: s) (auto split: prod.splits)

lemma retryLoop_bound: "length (fst (retryLoop n h s)) \<le> n + 1"
proof (induction n arbitrary: s)
  case 0
  then show ?case by (simp split: prod.splits)
next
  case (Suc n)
  obtain b s' where hs: "h s = (b, s')" by (cases "h s")
  obtain bs s'' where r: "retryLoop n h s' = (bs, s'')" by (cases "retryLoop n h s'")
  from Suc.IH [of s'] r have "length bs \<le> n + 1" by simp
  with hs r show ?case by simp
qed

text \<open>Every attempt but the last one ended in a transient failure.\<close>

lemma retryLoop_butlast:
  "a \<in> set (butlast (fst (retryLoop n h s))) \<Longrightarrow> retryable a"
proof (induction n arbitrary: s)
  case 0
  then show ?case by (simp split: prod.splits)
next
  case (Suc n)
  obtain b s' where hs: "h s = (b, s')" by (cases "h s")
  show ?case
  proof (cases "retryable b")
    case True
    obtain bs s'' where r: "retryLoop n h s' = (bs, s'')" by (cases "retryLoop n h s'")
    from retryLoop_nonempty [of n h s'] r have "bs \<noteq> []" by simp
    with Suc.prems hs True r have "a = b \<or> a \<in> set (butlast bs)" by auto
    then show ?thesis
    proof
      assume "a = b"
      with True show ?thesis by simp
    next
      assume "a \<in> set (butlast bs)"
      with Suc.IH [of s'] r show ?thesis by simp
    qed
  next
    case False
    with Suc.prems hs show ?thesis by simp
  qed
qed

text \<open>The loop stops before the bound only on an outcome that is not retried.\<close>

lemma retryLoop_early_stop:
  "length (fst (retryLoop n h s)) < n + 1 \<Longrightarrow> \<not> retryable (last (fst (retryLoop n h s)))"
proof (induction n arbitrary: s)
  case 0
  then show ?case by (simp split: prod.splits)
next
  case (Suc n)
  obtain b s' where hs: "h s = (b, s')" by (cases "h s")
  show ?case
  proof (cases "retryable b")
    case True
    obtain bs s'' where r: "retryLoop n h s' = (bs, s'')" by (cases "retryLoop n h s'")
    from retryLoop_nonempty [of n h s'] r have ne: "bs \<noteq> []" by simp
    from Suc.prems hs True r have "length (fst (retryLoop n h s')) < n + 1" by simp
    from Suc.IH [OF this] r ne hs True show ?thesis by simp
  next
    case False
    with hs show ?thesis by simp
  qed
qed

lemma retryLoop_not_retryable:
  "\<not> retryable (fst (h s)) \<Longrightarrow> fst (retryLoop n h s) = [fst (h s)]"
  by (cases n) (auto split: prod.splits)

lemma execute_attempts: "attempts (execute retries (Inr h) s) = fst (retryLoop retries h s)"
  by (simp add: execute_def split: prod.splits)

lemma execute_outcome: "outcome (execute retries (Inr h) s) = last (fst (retryLoop retries h s))"
  by (simp add: execute_def split: prod.splits)

text \<open>
  C5. The engine never retries a resolution failure: whatever failure Dispatch
  returned (PermissionDenied, ModuleLoadError, HandlerNotRegistered,
  UnsupportedHandlerType among them) is the outcome, with no attempt made and the
  outside world untouched; none of these four is classified as transient either. For a
  resolved handler at least one attempt and at most \<open>retries + 1\<close> attempts are made and
  the outcome of the last one is surfaced; every attempt that was followed by another
  one ended in a transient failure; when fewer than \<open>retries + 1\<close> attempts were made,
  the outcome is not a transient failure. A first attempt that succeeds, or that fails
  with a failure that is not transient, is the only attempt.
\<close>

theorem execute_retry_policy:
  "execute retries (Inl f) s = \<lparr> outcome = Inl f, attempts = [], world = s \<rparr>
   \<and> \<not> transient PermissionDenied \<and> \<not> transient ModuleLoadError
   \<and> \<not> transient HandlerNotRegistered \<and> \<not> transient UnsupportedHandlerType
   \<and> attempts (execute retries (Inr h) s) \<noteq> []
   \<and> outcome (execute retries (Inr h) s) = last (attempts (execute retries (Inr h) s))
   \<and> length (attempts (execute retries (Inr h) s)) \<le> retries + 1
   \<and> (\<forall>a \<in> set (butlast (attempts (execute retries (Inr h) s))).
         \<exists>e. a = Inl e \<and> transient e)
   \<and> (length (attempts (execute retries (Inr h) s)) < retries + 1 \<longrightarrow>
         \<not> (\<exists>e. outcome (execute retries (Inr h) s) = Inl e \<and> transient e))
   \<and> (fst (h s) = Inr r \<longrightarrow> attempts (execute retries (Inr h) s) = [Inr r])
   \<and> (fst (h s) = Inl e' \<and> \<not> transient e' \<longrightarrow>
         attempts (execute retries (Inr h) s) = [Inl e'])"
proof (intro conjI)
  show "execute retries (Inl f) s = \<lparr> outcome = Inl f, attempts = [], world = s \<rparr>"
    by (simp add: execute_def)
  show "attempts (execute retries (Inr h) s) \<noteq> []"
    by (simp add: execute_attempts retryLoop_nonempty)
  show "outcome (execute retries (Inr h) s) = last (attempts (execute retries (Inr h) s))"
    by (simp only: execute_attempts execute_outcome)
  show "length (attempts (execute retries (Inr h) s)) \<le> retries + 1"
    by (simp only: execute_attempts retryLoop_bound)
  show "\<forall>a \<in> set (butlast (attempts (execute retries (Inr h) s))).
         \<exists>e. a = Inl e \<and> transient e"
    using retryLoop_butlast [of _ retries h s]
    by (simp only: execute_attempts retryable_iff) blast
  show "length (attempts (execute retries (Inr h) s)) < retries + 1 \<longrightarrow>
         \<not> (\<exists>e. outcome (execute retries (Inr h) s) = Inl e \<and> transient e)"
    using retryLoop_early_stop [of retries h s]
    by (simp only: execute_attempts execute_outcome retryable_iff) blast
  show "fst (h s) = Inr r \<longrightarrow> attempts (execute retries (Inr h) s) = [Inr r]"
    using retryLoop_not_retryable [of h s retries]
    by (simp add: execute_attempts retryable_def)
  show "fst (h s) = Inl e' \<and> \<not> transient e' \<longrightarrow>
         attempts (execute retries (Inr h) s) = [Inl e']"
    using retryLoop_not_retryable [of h s retries]
    by (simp add: execute_attempts retryable_def)
qed simp_all

theorem execute_retry_policy_witness:
  "attempts (execute 2 (Inr flakyHandler) (0::nat)) = [Inl Timeout, Inl Timeout, Inr ''ok'']
   \<and> outcome (execute 2 (Inr flakyHandler) (0::nat)) = Inr ''ok''
   \<and> attempts (execute 1 (Inr flakyHandler) (0::nat)) = [Inl Timeout, Inl Timeout]
   \<and> outcome (execute 1 (Inr flakyHandler) (0::nat)) = Inl Timeout
   \<and> attempts (execute 2 (Inr flakyHandler) (2::nat)) = [Inr ''ok'']
   \<and> length (attempts (execute 2 (Inr flakyHandler) (0::nat))) \<le> 2 + 1"
proof -
  have a: "attempts (execute 2 (Inr flakyHandler) (0::nat))
      = [Inl Timeout, Inl Timeout, Inr ''ok'']"
    by (simp add: execute_def flakyHandler_def retryable_def numeral_2_eq_2)
  have b: "attempts (execute 1 (Inr flakyHandler) (0::nat)) = [Inl Timeout, Inl Timeout]"
    by (simp add: execute_def flakyHandler_def retryable_def)
  have h: "fst (flakyHandler 2) = Inr ''ok''"
    by (simp add: flakyHandler_def)
  note t2 = execute_retry_policy [of 2 Timeout 0 flakyHandler "''ok''" Timeout]
  note t1 = execute_retry_policy [of 1 Timeout 0 flakyHandler "''ok''" Timeout]
  note t0 = execute_retry_policy [of 2 Timeout 2 flakyHandler "''ok''" Timeout]
  from t2 have o2: "outcome (execute 2 (Inr flakyHandler) 0)
      = last (attempts (execute 2 (Inr flakyHandler) 0))"
    by blast
  from t2 have l2: "length (attempts (execute 2 (Inr flakyHandler) 0)) \<le> 2 + 1"
    by blast
  from t1 have o1: "outcome (execute 1 (Inr flakyHandler) 0)
      = last (attempts (execute 1 (Inr flakyHandler) 0))"
    by blast
  from t0 h have c: "attempts (execute 2 (Inr flakyHandler) 2) = [Inr ''ok'']"
    by blast
  from o2 a have "outcome (execute 2 (Inr flakyHandler) 0) = Inr ''ok''" by simp
  moreover from o1 b have "outcome (execute 1 (Inr flakyHandler) 0) = Inl Timeout" by simp
  ultimately show ?thesis using a b c l2 by blast
qed

end
